theory Spec2Isabelle
  imports Complex_Main "HOL-Library.AList"
begin

section \<open>The boundary to the native backend\<close>

text \<open>
  The frontend reaches the native backend through \<^verbatim>\<open>invoke(command, args)\<close>, which
  returns a promise, and through events the backend pushes (\<^verbatim>\<open>listen(name, handler)\<close>).
  The backend is not part of the frontend's code, so the model takes the outcome of every
  \<^verbatim>\<open>invoke\<close> as a parameter of the operation that awaits it: \<open>Inr v\<close> when the promise
  resolves with \<open>v\<close>, \<open>Inl e\<close> when it rejects with the error \<open>e\<close>. Every \<^verbatim>\<open>invoke\<close>
  an operation issues is appended to a log of the manager that issued it, so that
  "a call was issued" is a fact about the state.

  An \<^verbatim>\<open>async\<close> method does nothing to its manager before its single \<^verbatim>\<open>await\<close>, so each
  method is one step, taken when the backend's reply arrives.
\<close>

datatype direction = windows_to_linux | linux_to_windows

datatype backend_call =
    connect_ssh string int string "string option" "string option"
  | disconnect_ssh string
  | is_ssh_connected string
  | list_ssh_connections
  | create_transfer_task string string direction
  | get_transfer_progress string
  | get_active_transfers
  | cancel_transfer string
  | retry_transfer string

text \<open>A line of the console: \<^verbatim>\<open>console.log\<close> or \<^verbatim>\<open>console.error\<close>, with its message
  and the text of its payload.\<close>

datatype console_line = Log string string | Error string string


section \<open>SSHStateManager (Service/ssh_state.ts)\<close>

record SSHConfig =
  cfg_host :: string
  cfg_port :: int
  cfg_username :: string
  keyPath :: "string option"
  password :: "string option"

text \<open>\<^verbatim>\<open>lastActivity: Date\<close> is the clock's reading (milliseconds) when the record is built.\<close>

record SSHConnection =
  conn_id :: string
  host :: string
  port :: int
  username :: string
  connected :: bool
  lastActivity :: nat

text \<open>
  \<^verbatim>\<open>connections: Map<string, SSHConnection>\<close> is an association list in insertion order:
  \<^verbatim>\<open>Map.set\<close> replaces the value of a key in place and appends a new key
  (\<^const>\<open>AList.update\<close>), \<^verbatim>\<open>Map.delete\<close> removes the key (\<^const>\<open>AList.delete\<close>),
  \<^verbatim>\<open>Map.get\<close> is \<^const>\<open>map_of\<close>.
\<close>

record ssh_state =
  connections :: "(string \<times> SSHConnection) list"
  currentConnection :: "string option"
  ssh_invoked :: "backend_call list"
  ssh_console :: "console_line list"

definition ssh_init :: ssh_state where
  "ssh_init = \<lparr>connections = [], currentConnection = None, ssh_invoked = [], ssh_console = []\<rparr>"

text \<open>The listener for the backend's \<^verbatim>\<open>ssh-connected\<close> event only writes to the console.\<close>

definition on_ssh_connected :: "string \<Rightarrow> ssh_state \<Rightarrow> ssh_state" where
  "on_ssh_connected payload s = s\<lparr>ssh_console := ssh_console s @ [Log ''SSH connected:'' payload]\<rparr>"

text \<open>The listener for the backend's \<^verbatim>\<open>ssh-disconnected\<close> event.\<close>

definition on_ssh_disconnected :: "string \<Rightarrow> ssh_state \<Rightarrow> ssh_state" where
  "on_ssh_disconnected connectionId s =
     s\<lparr>ssh_console := ssh_console s @ [Log ''SSH disconnected:'' connectionId],
       connections := AList.delete connectionId (connections s),
       currentConnection :=
         (if currentConnection s = Some connectionId then None else currentConnection s)\<rparr>"

text \<open>
  \<^verbatim>\<open>connect\<close>: the backend's reply is the new connection identifier or an error. The
  error is written to the console and thrown again.
\<close>

definition connect :: "SSHConfig \<Rightarrow> nat \<Rightarrow> string + string \<Rightarrow> ssh_state \<Rightarrow> (string + string) \<times> ssh_state" where
  "connect config now reply s =
     (let s1 = s\<lparr>ssh_invoked := ssh_invoked s @
                 [connect_ssh (cfg_host config) (cfg_port config) (cfg_username config)
                    (keyPath config) (password config)]\<rparr>
      in case reply of
           Inr connectionId \<Rightarrow>
             (let connection = \<lparr>conn_id = connectionId, host = cfg_host config,
                                port = cfg_port config, username = cfg_username config,
                                connected = True, lastActivity = now\<rparr>
              in (Inr connectionId,
                  s1\<lparr>connections := AList.update connectionId connection (connections s1),
                     currentConnection := Some connectionId\<rparr>))
         | Inl error \<Rightarrow>
             (Inl error,
              s1\<lparr>ssh_console := ssh_console s1 @ [Error ''Failed to connect to SSH:'' error]\<rparr>))"

text \<open>\<^verbatim>\<open>disconnect\<close>: the record is deleted only after the backend has acknowledged; a
  failure of the backend call is written to the console and thrown again.\<close>

definition disconnect :: "string \<Rightarrow> string + unit \<Rightarrow> ssh_state \<Rightarrow> (string + unit) \<times> ssh_state" where
  "disconnect connectionId reply s =
     (let s1 = s\<lparr>ssh_invoked := ssh_invoked s @ [disconnect_ssh connectionId]\<rparr>
      in case reply of
           Inr _ \<Rightarrow>
             (Inr (),
              s1\<lparr>connections := AList.delete connectionId (connections s1),
                 currentConnection :=
                   (if currentConnection s1 = Some connectionId then None
                    else currentConnection s1)\<rparr>)
         | Inl error \<Rightarrow>
             (Inl error,
              s1\<lparr>ssh_console := ssh_console s1 @ [Error ''Failed to disconnect SSH:'' error]\<rparr>))"

text \<open>\<^verbatim>\<open>isConnected\<close> and \<^verbatim>\<open>listConnections\<close> ask the backend and catch its failure.\<close>

definition isConnected :: "string \<Rightarrow> string + bool \<Rightarrow> ssh_state \<Rightarrow> bool \<times> ssh_state" where
  "isConnected connectionId reply s =
     (let s1 = s\<lparr>ssh_invoked := ssh_invoked s @ [is_ssh_connected connectionId]\<rparr>
      in case reply of
           Inr b \<Rightarrow> (b, s1)
         | Inl error \<Rightarrow>
             (False, s1\<lparr>ssh_console := ssh_console s1 @ [Error ''Failed to check SSH connection:'' error]\<rparr>))"

definition listConnections :: "string + string list \<Rightarrow> ssh_state \<Rightarrow> string list \<times> ssh_state" where
  "listConnections reply s =
     (let s1 = s\<lparr>ssh_invoked := ssh_invoked s @ [list_ssh_connections]\<rparr>
      in case reply of
           Inr ids \<Rightarrow> (ids, s1)
         | Inl error \<Rightarrow>
             ([], s1\<lparr>ssh_console := ssh_console s1 @ [Error ''Failed to list SSH connections:'' error]\<rparr>))"

text \<open>
  \<^verbatim>\<open>getCurrentConnection\<close>: \<^verbatim>\<open>!this.currentConnection\<close> holds for \<^verbatim>\<open>null\<close> and for the
  empty string; a stored record is an object, hence never falsy in \<^verbatim>\<open>get(...) || null\<close>.
\<close>

definition getCurrentConnection :: "ssh_state \<Rightarrow> SSHConnection option" where
  "getCurrentConnection s =
     (case currentConnection s of
        None \<Rightarrow> None
      | Some c \<Rightarrow> if c = [] then None else map_of (connections s) c)"

definition getAllConnections :: "ssh_state \<Rightarrow> SSHConnection list" where
  "getAllConnections s = map snd (connections s)"

definition setCurrentConnection :: "string \<Rightarrow> ssh_state \<Rightarrow> ssh_state" where
  "setCurrentConnection connectionId s =
     (if map_of (connections s) connectionId \<noteq> None
      then s\<lparr>currentConnection := Some connectionId\<rparr> else s)"

text \<open>Everything that can happen to the manager, and a run of such steps.\<close>

datatype ssh_op =
    Connect SSHConfig nat "string + string"
  | Disconnect string "string + unit"
  | IsConnected string "string + bool"
  | ListConnections "string + string list"
  | SetCurrentConnection string
  | EvSshConnected string
  | EvSshDisconnected string

fun ssh_step :: "ssh_state \<Rightarrow> ssh_op \<Rightarrow> ssh_state" where
  "ssh_step s (Connect config now reply) = snd (connect config now reply s)"
| "ssh_step s (Disconnect connectionId reply) = snd (disconnect connectionId reply s)"
| "ssh_step s (IsConnected connectionId reply) = snd (isConnected connectionId reply s)"
| "ssh_step s (ListConnections reply) = snd (listConnections reply s)"
| "ssh_step s (SetCurrentConnection connectionId) = setCurrentConnection connectionId s"
| "ssh_step s (EvSshConnected payload) = on_ssh_connected payload s"
| "ssh_step s (EvSshDisconnected connectionId) = on_ssh_disconnected connectionId s"

definition ssh_run :: "ssh_op list \<Rightarrow> ssh_state" where
  "ssh_run ops = foldl ssh_step ssh_init ops"

text \<open>The current-connection pointer is null or a key of the registry.\<close>

definition pointer_ok :: "ssh_state \<Rightarrow> bool" where
  "pointer_ok s =
     (case currentConnection s of
        None \<Rightarrow> True
      | Some c \<Rightarrow> c \<in> fst ` set (connections s))"



section \<open>TransferQueueManager (Service/transfer_queue.ts)\<close>

datatype status = pending | in_progress | completed | failed | cancelled

text \<open>Dates are clock readings; byte counts are JavaScript numbers holding integers.\<close>

record TransferTask =
  task_id :: string
  sourcePath :: string
  destPath :: string
  direction :: direction
  status :: status
  totalBytes :: int
  transferredBytes :: int
  createdAt :: nat
  startedAt :: "nat option"
  completedAt :: "nat option"
  error :: "string option"

record TransferProgress =
  taskId :: string
  filename :: string
  progress_direction :: string
  bytesTransferred :: int
  progress_totalBytes :: int
  percentage :: real
  speedBytesPerSec :: real
  estimatedRemainingSecs :: real

text \<open>
  A progress callback is a function of the caller. The model names it: the closure that
  \<^verbatim>\<open>showTransferProgress\<close> builds over the progress container of a task and a file name,
  or any other function handed to \<^verbatim>\<open>onProgress\<close>. Calling a callback appends the call to
  \<open>delivered\<close>; \<^verbatim>\<open>updateProgressUI\<close>, which writes the sample's percentage into every
  progress bar and into the status bar, appends the sample to \<open>progressUI\<close>.
\<close>

datatype callback = ProgressContainer string string | Observer nat

record tq_state =
  activeTransfers :: "(string \<times> TransferTask) list"
  progressCallbacks :: "(string \<times> callback) list"
  tq_invoked :: "backend_call list"
  tq_console :: "console_line list"
  progressUI :: "TransferProgress list"
  delivered :: "(callback \<times> TransferProgress) list"

definition tq_init :: tq_state where
  "tq_init = \<lparr>activeTransfers = [], progressCallbacks = [], tq_invoked = [], tq_console = [],
               progressUI = [], delivered = []\<rparr>"

definition createTransferTask ::
  "string \<Rightarrow> string \<Rightarrow> direction \<Rightarrow> string + string \<Rightarrow> tq_state \<Rightarrow> (string + string) \<times> tq_state" where
  "createTransferTask src dst dir reply s =
     (let s1 = s\<lparr>tq_invoked := tq_invoked s @ [create_transfer_task src dst dir]\<rparr>
      in case reply of
           Inr newId \<Rightarrow>
             (Inr newId, s1\<lparr>tq_console := tq_console s1 @ [Log ''Transfer task created:'' newId]\<rparr>)
         | Inl err \<Rightarrow>
             (Inl err,
              s1\<lparr>tq_console := tq_console s1 @ [Error ''Failed to create transfer task:'' err]\<rparr>))"

definition getTransferProgress ::
  "string \<Rightarrow> string + TransferProgress option \<Rightarrow> tq_state \<Rightarrow> TransferProgress option \<times> tq_state" where
  "getTransferProgress tid reply s =
     (let s1 = s\<lparr>tq_invoked := tq_invoked s @ [get_transfer_progress tid]\<rparr>
      in case reply of
           Inr progress \<Rightarrow> (progress, s1)
         | Inl err \<Rightarrow>
             (None,
              s1\<lparr>tq_console := tq_console s1 @ [Error ''Failed to get transfer progress:'' err]\<rparr>))"

definition getActiveTransfers ::
  "string + TransferTask list \<Rightarrow> tq_state \<Rightarrow> TransferTask list \<times> tq_state" where
  "getActiveTransfers reply s =
     (let s1 = s\<lparr>tq_invoked := tq_invoked s @ [get_active_transfers]\<rparr>
      in case reply of
           Inr transfers \<Rightarrow> (transfers, s1)
         | Inl err \<Rightarrow>
             ([],
              s1\<lparr>tq_console := tq_console s1 @ [Error ''Failed to get active transfers:'' err]\<rparr>))"

text \<open>\<^verbatim>\<open>cancelTransfer\<close> asks the backend first, whatever the task is, and deletes the
  record once the backend has acknowledged; a failure is written to the console and thrown
  again.\<close>

definition cancelTransfer :: "string \<Rightarrow> string + unit \<Rightarrow> tq_state \<Rightarrow> (string + unit) \<times> tq_state" where
  "cancelTransfer tid reply s =
     (let s1 = s\<lparr>tq_invoked := tq_invoked s @ [cancel_transfer tid]\<rparr>
      in case reply of
           Inr _ \<Rightarrow> (Inr (), s1\<lparr>activeTransfers := AList.delete tid (activeTransfers s1)\<rparr>)
         | Inl err \<Rightarrow>
             (Inl err,
              s1\<lparr>tq_console := tq_console s1 @ [Error ''Failed to cancel transfer:'' err]\<rparr>))"

definition retryTransfer :: "string \<Rightarrow> string + unit \<Rightarrow> tq_state \<Rightarrow> (string + unit) \<times> tq_state" where
  "retryTransfer tid reply s =
     (let s1 = s\<lparr>tq_invoked := tq_invoked s @ [retry_transfer tid]\<rparr>
      in case reply of
           Inr _ \<Rightarrow> (Inr (), s1)
         | Inl err \<Rightarrow>
             (Inl err,
              s1\<lparr>tq_console := tq_console s1 @ [Error ''Failed to retry transfer:'' err]\<rparr>))"

definition updateProgressUI :: "TransferProgress \<Rightarrow> tq_state \<Rightarrow> tq_state" where
  "updateProgressUI progress s = s\<lparr>progressUI := progressUI s @ [progress]\<rparr>"

text \<open>The handler of the backend's \<^verbatim>\<open>transfer_progress\<close> event. A stored callback is a
  function, so \<^verbatim>\<open>if (callback)\<close> asks only whether the task has one.\<close>

definition handleTransferProgress :: "TransferProgress \<Rightarrow> tq_state \<Rightarrow> tq_state" where
  "handleTransferProgress progress s =
     (let s1 = s\<lparr>tq_console := tq_console s @ [Log ''Transfer progress:'' (taskId progress)]\<rparr>;
          s2 = updateProgressUI progress s1
      in case map_of (progressCallbacks s2) (taskId progress) of
           Some cb \<Rightarrow> s2\<lparr>delivered := delivered s2 @ [(cb, progress)]\<rparr>
         | None \<Rightarrow> s2)"

text \<open>The handlers of the backend's \<^verbatim>\<open>transfer_completed\<close> and \<^verbatim>\<open>transfer_failed\<close>
  events.\<close>

definition handleTransferCompleted :: "string \<Rightarrow> tq_state \<Rightarrow> tq_state" where
  "handleTransferCompleted tid s =
     s\<lparr>tq_console := tq_console s @ [Log ''Transfer completed:'' tid],
       activeTransfers := AList.delete tid (activeTransfers s),
       progressCallbacks := AList.delete tid (progressCallbacks s)\<rparr>"

definition handleTransferFailed :: "string \<Rightarrow> string \<Rightarrow> tq_state \<Rightarrow> tq_state" where
  "handleTransferFailed tid err s =
     s\<lparr>tq_console := tq_console s @ [Error ''Transfer failed:'' (tid @ '' '' @ err)],
       activeTransfers := AList.delete tid (activeTransfers s),
       progressCallbacks := AList.delete tid (progressCallbacks s)\<rparr>"

definition onProgress :: "string \<Rightarrow> callback \<Rightarrow> tq_state \<Rightarrow> tq_state" where
  "onProgress tid cb s = s\<lparr>progressCallbacks := AList.update tid cb (progressCallbacks s)\<rparr>"

definition removeProgressCallback :: "string \<Rightarrow> tq_state \<Rightarrow> tq_state" where
  "removeProgressCallback tid s = s\<lparr>progressCallbacks := AList.delete tid (progressCallbacks s)\<rparr>"

text \<open>Everything that can happen to the manager: its public methods, each with the
  backend's reply, and the three backend events it listens to.\<close>

datatype tq_op =
    CreateTransferTask string string direction "string + string"
  | GetTransferProgress string "string + TransferProgress option"
  | GetActiveTransfers "string + TransferTask list"
  | CancelTransfer string "string + unit"
  | RetryTransfer string "string + unit"
  | OnProgress string callback
  | RemoveProgressCallback string
  | EvTransferProgress TransferProgress
  | EvTransferCompleted string
  | EvTransferFailed string string

fun tq_step :: "tq_state \<Rightarrow> tq_op \<Rightarrow> tq_state" where
  "tq_step s (CreateTransferTask src dst dir reply) = snd (createTransferTask src dst dir reply s)"
| "tq_step s (GetTransferProgress tid reply) = snd (getTransferProgress tid reply s)"
| "tq_step s (GetActiveTransfers reply) = snd (getActiveTransfers reply s)"
| "tq_step s (CancelTransfer tid reply) = snd (cancelTransfer tid reply s)"
| "tq_step s (RetryTransfer tid reply) = snd (retryTransfer tid reply s)"
| "tq_step s (OnProgress tid cb) = onProgress tid cb s"
| "tq_step s (RemoveProgressCallback tid) = removeProgressCallback tid s"
| "tq_step s (EvTransferProgress progress) = handleTransferProgress progress s"
| "tq_step s (EvTransferCompleted tid) = handleTransferCompleted tid s"
| "tq_step s (EvTransferFailed tid err) = handleTransferFailed tid err s"

definition terminal :: "status \<Rightarrow> bool" where
  "terminal st = (st = completed \<or> st = failed \<or> st = cancelled)"

text \<open>The steps that register a callback for a task identifier.\<close>

fun subscribes :: "string \<Rightarrow> tq_op \<Rightarrow> bool" where
  "subscribes tid (OnProgress t cb) = (t = tid)"
| "subscribes tid _ = False"



section \<open>DragDropHandler (Components/Transfer/DragDropHandler.ts)\<close>

record DragDropData =
  sourcePane :: string
  destPane :: string
  dd_sourcePath :: string
  dd_destPath :: string
  dd_filename :: string
  isDirectory :: bool

text \<open>
  What the handler reads of a DOM element: the \<^verbatim>\<open>id\<close> of the closest \<^verbatim>\<open>.pane\<close>,
  the element itself included (\<open>None\<close> when the element lies in no pane, the empty string
  when the pane has no \<^verbatim>\<open>id\<close>), and the three \<^verbatim>\<open>data-\<close> attributes (\<open>None\<close> when the
  attribute is missing).
\<close>

record element =
  closest_pane :: "string option"
  data_path :: "string option"
  data_filename :: "string option"
  data_isDirectory :: "string option"

text \<open>\<^verbatim>\<open>x || ''\<close> on an optional string.\<close>

definition or_empty :: "string option \<Rightarrow> string" where
  "or_empty x = (case x of None \<Rightarrow> [] | Some v \<Rightarrow> v)"

text \<open>\<^verbatim>\<open>getPaneId\<close> of an element: \<^verbatim>\<open>element.closest('.pane')?.id || ''\<close>.\<close>

definition getPaneId :: "element \<Rightarrow> string" where
  "getPaneId el = or_empty (closest_pane el)"

text \<open>The exception a handler can raise: a property read on \<^verbatim>\<open>null\<close>.\<close>

datatype js_error = TypeError

text \<open>
  \<^verbatim>\<open>extractDragData\<close> hands \<^verbatim>\<open>fileItem.closest('.pane')\<close> to \<^verbatim>\<open>getPaneId\<close>. For a file
  item that lies in no pane this is \<^verbatim>\<open>null\<close> (the \<^verbatim>\<open>!\<close> is erased by the compiler) and
  \<^verbatim>\<open>getPaneId\<close> throws on \<^verbatim>\<open>null.closest\<close>. Otherwise it is the pane, whose closest pane
  is itself, so the result is the identifier of the file item's pane.
  \<^verbatim>\<open>!sourcePath || !filename\<close>: a string is falsy exactly when it is empty.
\<close>

definition extractDragData :: "element \<Rightarrow> js_error + DragDropData option" where
  "extractDragData fileItem =
     (case closest_pane fileItem of
        None \<Rightarrow> Inl TypeError
      | Some _ \<Rightarrow>
          (let srcPane = getPaneId fileItem;
               srcPath = or_empty (data_path fileItem);
               fname = or_empty (data_filename fileItem);
               isDir = (data_isDirectory fileItem = Some ''true'')
           in if srcPath = [] \<or> fname = [] then Inr None
              else Inr (Some \<lparr>sourcePane = srcPane, destPane = [], dd_sourcePath = srcPath,
                                dd_destPath = [], dd_filename = fname, isDirectory = isDir\<rparr>)))"

text \<open>\<^verbatim>\<open>String.prototype.includes\<close>.\<close>

fun str_includes :: "string \<Rightarrow> string \<Rightarrow> bool" where
  "str_includes [] sub = (sub = [])"
| "str_includes (c # cs) sub = (take (length sub) (c # cs) = sub \<or> str_includes cs sub)"

definition getTransferDirection :: "string \<Rightarrow> string \<Rightarrow> direction option" where
  "getTransferDirection srcPane dstPane =
     (if str_includes srcPane ''windows'' \<and> str_includes dstPane ''linux'' then Some windows_to_linux
      else if str_includes srcPane ''linux'' \<and> str_includes dstPane ''windows'' then Some linux_to_windows
      else None)"

definition getDestinationPath :: "string \<Rightarrow> string \<Rightarrow> string option" where
  "getDestinationPath dstPane fname =
     (if str_includes dstPane ''linux'' then Some (''/home/user/'' @ fname)
      else if str_includes dstPane ''windows''
      then Some (''C:'' @ [CHR 0x5C] @ ''Users'' @ [CHR 0x5C] @ ''User'' @ [CHR 0x5C] @ fname)
      else None)"

text \<open>The handler's own fields, its console lines and the error notifications it has
  put on the page (\<^verbatim>\<open>showError\<close>).\<close>

record dd_state =
  dragData :: "DragDropData option"
  isDragging :: bool
  dd_console :: "console_line list"
  errorNotifications :: "string list"

definition dd_init :: dd_state where
  "dd_init = \<lparr>dragData = None, isDragging = False, dd_console = [], errorNotifications = []\<rparr>"


section \<open>The application: the three singletons and the backend's events\<close>

record app_state =
  ssh :: ssh_state
  tq :: tq_state
  dd :: dd_state

definition app_init :: app_state where
  "app_init = \<lparr>ssh = ssh_init, tq = tq_init, dd = dd_init\<rparr>"

text \<open>
  \<^verbatim>\<open>handleDragStart\<close>: the event's target may lie in no \<^verbatim>\<open>.file-item\<close>; then nothing
  happens. Otherwise \<^verbatim>\<open>isDragging\<close> is set before \<^verbatim>\<open>extractDragData\<close> is called, and an
  exception of that call leaves the listener with the earlier drag data still in place.
  The result is the exception that left the listener, if any, and the state. (The event's
  \<^verbatim>\<open>dataTransfer\<close> is present, as in every drag event the browser dispatches.)
\<close>

definition handleDragStart :: "element option \<Rightarrow> app_state \<Rightarrow> js_error option \<times> app_state" where
  "handleDragStart fileItem a =
     (case fileItem of
        None \<Rightarrow> (None, a)
      | Some item \<Rightarrow>
          (let a1 = a\<lparr>dd := (dd a)\<lparr>isDragging := True\<rparr>\<rparr>
           in case extractDragData item of
                Inl e \<Rightarrow> (Some e, a1)
              | Inr d \<Rightarrow> (None, a1\<lparr>dd := (dd a1)\<lparr>dragData := d\<rparr>\<rparr>)))"

definition handleDragEnd :: "app_state \<Rightarrow> app_state" where
  "handleDragEnd a = a\<lparr>dd := (dd a)\<lparr>isDragging := False, dragData := None\<rparr>\<rparr>"

definition showTransferProgress :: "string \<Rightarrow> string \<Rightarrow> app_state \<Rightarrow> app_state" where
  "showTransferProgress tid fname a = a\<lparr>tq := onProgress tid (ProgressContainer tid fname) (tq a)\<rparr>"

definition showError :: "string \<Rightarrow> app_state \<Rightarrow> app_state" where
  "showError message a = a\<lparr>dd := (dd a)\<lparr>errorNotifications := errorNotifications (dd a) @ [message]\<rparr>\<rparr>"

definition dd_log :: "console_line \<Rightarrow> app_state \<Rightarrow> app_state" where
  "dd_log line a = a\<lparr>dd := (dd a)\<lparr>dd_console := dd_console (dd a) @ [line]\<rparr>\<rparr>"

text \<open>\<^verbatim>\<open>initiateTransfer\<close>; \<open>reply\<close> is the backend's answer to
  \<^verbatim>\<open>create_transfer_task\<close>, should the call be issued.\<close>

definition initiateTransfer ::
  "DragDropData \<Rightarrow> string \<Rightarrow> direction \<Rightarrow> string + string \<Rightarrow> app_state \<Rightarrow> app_state" where
  "initiateTransfer d dstPane dir reply a =
     (case getDestinationPath dstPane (dd_filename d) of
        None \<Rightarrow> dd_log (Error ''Could not determine destination path'' []) a
      | Some dst \<Rightarrow>
          (case createTransferTask (dd_sourcePath d) dst dir reply (tq a) of
             (Inr newId, q) \<Rightarrow>
               showTransferProgress newId (dd_filename d)
                 (dd_log (Log ''Transfer initiated:'' newId) (a\<lparr>tq := q\<rparr>))
           | (Inl err, q) \<Rightarrow>
               showError (''Transfer failed: '' @ err)
                 (dd_log (Error ''Failed to initiate transfer:'' err) (a\<lparr>tq := q\<rparr>))))"

text \<open>\<^verbatim>\<open>handleDrop\<close> returns nothing and throws nothing; what it does is in the state.\<close>

definition handleDrop :: "element \<Rightarrow> string + string \<Rightarrow> app_state \<Rightarrow> app_state" where
  "handleDrop target reply a =
     (case dragData (dd a) of
        None \<Rightarrow> a
      | Some d \<Rightarrow>
          (let dstPane = getPaneId target; srcPane = sourcePane d
           in if srcPane = dstPane then dd_log (Log ''Cannot drop on same pane'' []) a
              else (case getTransferDirection srcPane dstPane of
                      Some dir \<Rightarrow> initiateTransfer d dstPane dir reply a
                    | None \<Rightarrow> a)))"

text \<open>
  The events the backend pushes, each handed to the listeners the two managers register
  in their constructors. (The listeners of the panels and layouts write to the page only.)
\<close>

datatype backend_event =
    ssh_connected string
  | ssh_disconnected string
  | transfer_progress TransferProgress
  | transfer_completed string
  | transfer_failed string string

fun deliver :: "backend_event \<Rightarrow> app_state \<Rightarrow> app_state" where
  "deliver (ssh_connected payload) a = a\<lparr>ssh := on_ssh_connected payload (ssh a)\<rparr>"
| "deliver (ssh_disconnected connectionId) a = a\<lparr>ssh := on_ssh_disconnected connectionId (ssh a)\<rparr>"
| "deliver (transfer_progress progress) a = a\<lparr>tq := handleTransferProgress progress (tq a)\<rparr>"
| "deliver (transfer_completed tid) a = a\<lparr>tq := handleTransferCompleted tid (tq a)\<rparr>"
| "deliver (transfer_failed tid err) a = a\<lparr>tq := handleTransferFailed tid err (tq a)\<rparr>"


section \<open>The transfer scheduler\<close>


text \<open>Modelled from the spec: the scheduler's state, which the frontend's sources do not
  hold. Tasks are numbered in the order of their creation; \<open>statuses ! t\<close> is the status
  of task \<open>t\<close>; \<open>waitQueue\<close> holds the pending tasks in arrival order, head first.\<close>

record sched =
  ceiling :: nat
  statuses :: "status list"
  waitQueue :: "nat list"


text \<open>Modelled from the spec: the number of tasks that hold status in-progress.\<close>

definition running :: "sched \<Rightarrow> nat" where
  "running s = length (filter (\<lambda>st. st = in_progress) (statuses s))"

text \<open>Modelled from the spec: admission, absent from the sources. A request becomes a new
  task; below the ceiling it is started at once, otherwise ("new requests beyond the
  ceiling are held in arrival order (FIFO) in a wait queue") it stays pending at the end
  of the wait queue.\<close>

definition submit :: "sched \<Rightarrow> sched" where
  "submit s =
     (if running s < ceiling s
      then s\<lparr>statuses := statuses s @ [in_progress]\<rparr>
      else s\<lparr>statuses := statuses s @ [pending],
             waitQueue := waitQueue s @ [length (statuses s)]\<rparr>)"

text \<open>Modelled from the spec: promotion, absent from the sources: "the Scheduler promotes
  the head of the wait queue, if any, to in-progress".\<close>

definition promote :: "sched \<Rightarrow> sched" where
  "promote s =
     (case waitQueue s of
        [] \<Rightarrow> s
      | h # q \<Rightarrow> s\<lparr>statuses := (statuses s)[h := in_progress], waitQueue := q\<rparr>)"

text \<open>Modelled from the spec: a terminal outcome, absent from the sources. An in-progress
  task takes the terminal status (completed, failed, or cancelled once its cancellation
  takes effect) and the head of the wait queue is promoted in the same step; an outcome
  for a task that is not in progress is ignored.\<close>

definition finish :: "nat \<Rightarrow> status \<Rightarrow> sched \<Rightarrow> sched" where
  "finish t st s =
     (if t < length (statuses s) \<and> statuses s ! t = in_progress \<and> terminal st
      then promote (s\<lparr>statuses := (statuses s)[t := st]\<rparr>)
      else s)"

text \<open>Modelled from the spec: cancellation of a pending task, absent from the sources:
  "removes from queue, no backend call"; the task becomes cancelled without ever
  starting.\<close>

definition cancel_pending :: "nat \<Rightarrow> sched \<Rightarrow> sched" where
  "cancel_pending t s =
     (if t < length (statuses s) \<and> statuses s ! t = pending
      then s\<lparr>statuses := (statuses s)[t := cancelled], waitQueue := removeAll t (waitQueue s)\<rparr>
      else s)"







section \<open>The task store behind the scheduler\<close>

text \<open>
  No code of the frontend writes a task's status or its byte counters: the store of
  \<^verbatim>\<open>TransferQueueManager\<close> is never inserted into, and the tasks live "on the Rust side".
  The store below is therefore written from the specification's sections 3, 4.3 and 4.4,
  on top of the scheduler above, which holds the statuses.
\<close>

text \<open>Modelled from the spec: the byte counters of the task store, which the frontend's
  sources hold only as the declaration of \<^verbatim>\<open>TransferTask\<close>. Task \<open>t\<close> has transferred
  \<open>transferred_bytes ! t\<close> of \<open>total_bytes ! t\<close> bytes.\<close>

record store =
  sch :: sched
  transferred_bytes :: "int list"
  total_bytes :: "int list"


text \<open>Modelled from the spec: the creation of a task, absent from the sources: a request
  "is consumed exactly once by the Scheduler, producing one TransferTask", with its total
  byte count and nothing transferred yet.\<close>

definition request :: "int \<Rightarrow> store \<Rightarrow> store" where
  "request bytes s =
     s\<lparr>sch := submit (sch s),
       transferred_bytes := transferred_bytes s @ [0],
       total_bytes := total_bytes s @ [bytes]\<rparr>"



text \<open>Modelled from the spec: \<^verbatim>\<open>cancel\<close>, absent from the sources: "permitted from either
  pending (removes from queue, no backend call) or in-progress", where the task is marked
  cancelled.\<close>

definition cancel :: "nat \<Rightarrow> store \<Rightarrow> store" where
  "cancel t s =
     (if t < length (statuses (sch s)) \<and> statuses (sch s) ! t = pending
      then s\<lparr>sch := cancel_pending t (sch s)\<rparr>
      else s\<lparr>sch := finish t cancelled (sch s)\<rparr>)"

text \<open>Modelled from the spec: \<^verbatim>\<open>retry\<close>, absent from the sources: "valid only on a task in
  failed state; it clones the original request into a new pending task and re-enters the
  admission queue; the failed record is retained for audit, unmodified".\<close>

definition retry :: "nat \<Rightarrow> store \<Rightarrow> store" where
  "retry t s =
     (if t < length (statuses (sch s)) \<and> t < length (total_bytes s)
         \<and> statuses (sch s) ! t = failed
      then request (total_bytes s ! t) s
      else s)"






section \<open>Concrete inputs\<close>

definition ex_cfg :: SSHConfig where
  "ex_cfg = \<lparr>cfg_host = ''h'', cfg_port = 22, cfg_username = ''u'', keyPath = None,
              password = Some ''pw''\<rparr>"

definition ex_ssh_ops :: "ssh_op list" where
  "ex_ssh_ops = [Connect ex_cfg 0 (Inr ''c1''), SetCurrentConnection ''zz'',
                 Connect ex_cfg 5 (Inr ''c2''), EvSshDisconnected ''c2'']"

definition ex_s1 :: ssh_state where
  "ex_s1 = snd (connect ex_cfg 0 (Inr ''c1'') ssh_init)"

definition ex_task :: "status \<Rightarrow> TransferTask" where
  "ex_task st = \<lparr>task_id = ''T'', sourcePath = ''C:/a.txt'', destPath = ''/home/user/a.txt'',
                 direction = windows_to_linux, status = st, totalBytes = 1000,
                 transferredBytes = 500, createdAt = 0, startedAt = None, completedAt = None,
                 error = None\<rparr>"

definition ex_sample :: "int \<Rightarrow> TransferProgress" where
  "ex_sample n = \<lparr>taskId = ''T'', filename = ''a.txt'', progress_direction = ''windows_to_linux'',
                  bytesTransferred = n, progress_totalBytes = 1000, percentage = 0,
                  speedBytesPerSec = 0, estimatedRemainingSecs = 0\<rparr>"

definition ex_tq :: "status \<Rightarrow> tq_state" where
  "ex_tq st = onProgress ''T'' (Observer 1) (tq_init\<lparr>activeTransfers := [(''T'', ex_task st)]\<rparr>)"

definition ex_app :: app_state where
  "ex_app = \<lparr>ssh = ex_s1, tq = ex_tq in_progress, dd = dd_init\<rparr>"

definition ex_app2 :: app_state where
  "ex_app2 = \<lparr>ssh = snd (connect ex_cfg 5 (Inr ''c2'') ex_s1), tq = ex_tq in_progress, dd = dd_init\<rparr>"

definition ex_item :: "string option \<Rightarrow> string option \<Rightarrow> element" where
  "ex_item p f = \<lparr>closest_pane = Some ''windows-content-pane'', data_path = p,
                  data_filename = f, data_isDirectory = None\<rparr>"

definition ex_target :: "string \<Rightarrow> element" where
  "ex_target pane = \<lparr>closest_pane = Some pane, data_path = None, data_filename = None,
                     data_isDirectory = None\<rparr>"

definition ex_drag :: DragDropData where
  "ex_drag = \<lparr>sourcePane = ''windows-content-pane'', destPane = [],
              dd_sourcePath = ''C:/a.txt'', dd_destPath = [],
              dd_filename = ''a.txt'', isDirectory = False\<rparr>"




definition ex_tq_sub :: tq_state where
  "ex_tq_sub = onProgress ''T'' (Observer 1) tq_init"

definition ex_late_ops :: "tq_op list" where
  "ex_late_ops = [EvTransferProgress (ex_sample 700), OnProgress ''U'' (Observer 2),
                  RetryTransfer ''T'' (Inr ()), EvTransferProgress (ex_sample 900)]"




section \<open>Properties of SSHStateManager\<close>

lemma map_of_None_iff_keys: "map_of al k = None \<longleftrightarrow> k \<notin> fst ` set al"
  by (simp add: map_of_eq_None_iff)

lemma keys_delete: "fst ` set (AList.delete k al) = fst ` set al - {k}"
  by (induction al) auto

lemma pointer_ok_step:
  assumes "pointer_ok s"
  shows "pointer_ok (ssh_step s ev)"
proof (cases ev)
  case (Connect config now reply)
  then show ?thesis
    by (cases reply)
       (use assms in \<open>auto simp: connect_def pointer_ok_def Let_def dom_update split: option.splits\<close>)
next
  case (Disconnect connectionId reply)
  with assms show ?thesis
    by (cases reply)
       (auto simp: disconnect_def pointer_ok_def Let_def keys_delete split: option.splits)
next
  case (IsConnected connectionId reply)
  with assms show ?thesis
    by (cases reply) (auto simp: isConnected_def pointer_ok_def Let_def split: option.splits)
next
  case (ListConnections reply)
  with assms show ?thesis
    by (cases reply) (auto simp: listConnections_def pointer_ok_def Let_def split: option.splits)
next
  case (SetCurrentConnection connectionId)
  with assms show ?thesis
    by (auto simp: setCurrentConnection_def pointer_ok_def map_of_None_iff_keys)
next
  case (EvSshConnected payload)
  with assms show ?thesis
    by (auto simp: on_ssh_connected_def pointer_ok_def split: option.splits)
next
  case (EvSshDisconnected connectionId)
  with assms show ?thesis
    by (auto simp: on_ssh_disconnected_def pointer_ok_def keys_delete split: option.splits)
qed

lemma pointer_ok_foldl: "pointer_ok s \<Longrightarrow> pointer_ok (foldl ssh_step s ops)"
  by (induction ops arbitrary: s) (simp_all add: pointer_ok_step)

lemma pointer_ok_run: "pointer_ok (ssh_run ops)"
  unfolding ssh_run_def by (rule pointer_ok_foldl) (simp add: pointer_ok_def ssh_init_def)

lemma getCurrentConnection_stored:
  "getCurrentConnection s = Some r \<Longrightarrow> r \<in> snd ` set (connections s)"
  by (auto simp: getCurrentConnection_def split: option.splits if_splits
           dest!: map_of_SomeD intro: rev_image_eqI)


text \<open>
  Claim C10. The current-connection pointer is null or the key of a record of the
  registry, in every state the manager reaches from its construction, whatever the
  operations, replies and events; so \<^verbatim>\<open>getCurrentConnection\<close> returns null or a stored
  record. A successful connect returns the backend's identifier, registers a record under
  it and points to it; \<^verbatim>\<open>setCurrentConnection\<close> with an identifier that is not in the
  registry changes nothing; removing the current connection, by an acknowledged
  disconnect or by the backend's disconnect event, clears the pointer.
\<close>

theorem C10_current_pointer_valid:
  "pointer_ok (ssh_run ops)
   \<and> (getCurrentConnection (ssh_run ops) = None
      \<or> getCurrentConnection (ssh_run ops) \<in> Some ` snd ` set (connections (ssh_run ops)))
   \<and> fst (connect config now (Inr cid) s) = Inr cid
   \<and> currentConnection (snd (connect config now (Inr cid) s)) = Some cid
   \<and> map_option conn_id (map_of (connections (snd (connect config now (Inr cid) s))) cid) = Some cid
   \<and> (map_of (connections s) cid = None \<longrightarrow> setCurrentConnection cid s = s)
   \<and> (currentConnection s = Some cid \<longrightarrow>
        currentConnection (snd (disconnect cid (Inr ()) s)) = None
        \<and> currentConnection (on_ssh_disconnected cid s) = None)"
proof -
  have a: "pointer_ok (ssh_run ops)" by (rule pointer_ok_run)
  have b: "getCurrentConnection (ssh_run ops) = None
      \<or> getCurrentConnection (ssh_run ops) \<in> Some ` snd ` set (connections (ssh_run ops))"
    using getCurrentConnection_stored [of "ssh_run ops"]
    by (cases "getCurrentConnection (ssh_run ops)") auto
  have c: "fst (connect config now (Inr cid) s) = Inr cid"
    by (simp add: connect_def Let_def)
  have d: "currentConnection (snd (connect config now (Inr cid) s)) = Some cid"
    by (simp add: connect_def Let_def)
  have e: "map_option conn_id (map_of (connections (snd (connect config now (Inr cid) s))) cid) = Some cid"
    by (simp add: connect_def Let_def update_conv')
  have f: "map_of (connections s) cid = None \<longrightarrow> setCurrentConnection cid s = s"
    by (simp add: setCurrentConnection_def)
  have g: "currentConnection s = Some cid \<longrightarrow>
        currentConnection (snd (disconnect cid (Inr ()) s)) = None
        \<and> currentConnection (on_ssh_disconnected cid s) = None"
    by (simp add: disconnect_def on_ssh_disconnected_def Let_def)
  from a b c d e f g show ?thesis by blast
qed

theorem C10_current_pointer_valid_witness:
  "map_of (connections ssh_init) ''zz'' = None
   \<and> setCurrentConnection ''zz'' ssh_init = ssh_init
   \<and> currentConnection (snd (connect ex_cfg 0 (Inr ''c1'') ssh_init)) = Some ''c1''
   \<and> currentConnection (snd (disconnect ''c1'' (Inr ())
        (snd (connect ex_cfg 0 (Inr ''c1'') ssh_init)))) = None
   \<and> currentConnection (on_ssh_disconnected ''c1''
        (snd (connect ex_cfg 0 (Inr ''c1'') ssh_init))) = None
   \<and> pointer_ok (ssh_run ex_ssh_ops)
   \<and> currentConnection (ssh_run ex_ssh_ops) = None
   \<and> map fst (connections (ssh_run ex_ssh_ops)) = [''c1'']"
proof -
  have h1: "map_of (connections ssh_init) ''zz'' = None"
    by (simp add: ssh_init_def)
  have h2: "currentConnection (snd (connect ex_cfg 0 (Inr ''c1'') ssh_init)) = Some ''c1''"
    by (simp add: connect_def Let_def)
  have r: "currentConnection (ssh_run ex_ssh_ops) = None
           \<and> map fst (connections (ssh_run ex_ssh_ops)) = [''c1'']"
    by (simp add: ssh_run_def ex_ssh_ops_def ssh_init_def connect_def Let_def
          setCurrentConnection_def on_ssh_disconnected_def ex_cfg_def)
  from C10_current_pointer_valid [of ex_ssh_ops ex_cfg 0 "''zz''" ssh_init] h1
  have s1: "setCurrentConnection ''zz'' ssh_init = ssh_init"
    and p: "pointer_ok (ssh_run ex_ssh_ops)"
    by blast+
  from C10_current_pointer_valid
         [of "[]" ex_cfg 0 "''c1''" "snd (connect ex_cfg 0 (Inr ''c1'') ssh_init)"] h2
  have s2: "currentConnection (snd (disconnect ''c1'' (Inr ())
              (snd (connect ex_cfg 0 (Inr ''c1'') ssh_init)))) = None
            \<and> currentConnection (on_ssh_disconnected ''c1''
              (snd (connect ex_cfg 0 (Inr ''c1'') ssh_init))) = None"
    by blast
  from h1 h2 r s1 p s2 show ?thesis by blast
qed

lemma length_update_keys:
  "length (AList.update k v al) = (if k \<in> fst ` set al then length al else Suc (length al))"
  by (induction al) auto

text \<open>
  Claim C4, as stated, fails: \<^verbatim>\<open>connect\<close> never looks for a live connection with the
  same host and username. After a first connect under the identifier \<open>c1\<close>, a second
  connect with the same configuration, answered by the backend with \<open>c2\<close>, returns \<open>c2\<close>
  and leaves two live records with the same host and username.
\<close>

theorem C4_counterexample:
  "fst (connect ex_cfg 0 (Inr ''c1'') ssh_init) = Inr ''c1''
   \<and> fst (connect ex_cfg 5 (Inr ''c2'') ex_s1) = Inr ''c2''
   \<and> map (\<lambda>(k, r). (k, host r, username r, connected r)) (connections ex_s1)
       = [(''c1'', ''h'', ''u'', True)]
   \<and> map (\<lambda>(k, r). (k, host r, username r, connected r))
         (connections (snd (connect ex_cfg 5 (Inr ''c2'') ex_s1)))
       = [(''c1'', ''h'', ''u'', True), (''c2'', ''h'', ''u'', True)]"
  by (simp add: ex_s1_def connect_def Let_def ssh_init_def ex_cfg_def)

text \<open>
  Claim C4, amended. A successful connect returns the identifier the backend issued and
  stores the new record under that identifier, replacing in place the record already
  stored under it, if any. The registry therefore gains no record exactly when the
  backend issues an identifier that is already registered, and gains one record
  otherwise; host and username play no part.
\<close>

theorem C4_connect_keyed_by_backend_identifier:
  "fst (connect config now (Inr cid) s) = Inr cid
   \<and> connections (snd (connect config now (Inr cid) s))
       = AList.update cid \<lparr>conn_id = cid, host = cfg_host config, port = cfg_port config,
                             username = cfg_username config, connected = True,
                             lastActivity = now\<rparr> (connections s)
   \<and> length (connections (snd (connect config now (Inr cid) s)))
       = (if cid \<in> fst ` set (connections s) then length (connections s)
          else Suc (length (connections s)))"
  by (simp add: connect_def Let_def length_update_keys)

text \<open>
  Claim C9, as stated, fails: \<^verbatim>\<open>disconnect\<close> writes a failure of the backend call to the
  console and throws it again. For an identifier absent from the registry the backend's
  error reaches the caller; and when the backend call fails for a registered identifier,
  the identifier is still in the registry after the call.
\<close>

theorem C9_counterexample:
  "map_of (connections ssh_init) ''c1'' = None
   \<and> fst (disconnect ''c1'' (Inl ''unknown connection'') ssh_init) = Inl ''unknown connection''
   \<and> map fst (connections (snd (disconnect ''c1'' (Inl ''timed out'') ex_s1))) = [''c1'']
   \<and> fst (disconnect ''c1'' (Inl ''timed out'') ex_s1) = Inl ''timed out''"
  by (simp add: ex_s1_def connect_def disconnect_def Let_def ssh_init_def ex_cfg_def)

text \<open>
  Claim C9, amended. When the backend acknowledges, disconnect raises no error, whether
  or not the identifier was registered, the identifier is absent from the registry
  afterwards, and a second acknowledged disconnect changes the registry no further. When
  the backend call fails, the failure is written to the console and propagated to the
  caller, and the registry and the current pointer are left as they were.
\<close>

theorem C9_disconnect_follows_backend_reply:
  "fst (disconnect cid (Inr ()) s) = Inr ()
   \<and> map_of (connections (snd (disconnect cid (Inr ()) s))) cid = None
   \<and> connections (snd (disconnect cid (Inr ()) (snd (disconnect cid (Inr ()) s))))
       = connections (snd (disconnect cid (Inr ()) s))
   \<and> fst (disconnect cid (Inl e) s) = Inl e
   \<and> connections (snd (disconnect cid (Inl e) s)) = connections s
   \<and> currentConnection (snd (disconnect cid (Inl e) s)) = currentConnection s
   \<and> ssh_console (snd (disconnect cid (Inl e) s))
       = ssh_console s @ [Error ''Failed to disconnect SSH:'' e]"
  by (simp add: disconnect_def Let_def delete_conv' delete_idem)

lemma handleTransferProgress_store:
  "activeTransfers (handleTransferProgress p s) = activeTransfers s
   \<and> progressCallbacks (handleTransferProgress p s) = progressCallbacks s"
  by (simp add: handleTransferProgress_def updateProgressUI_def Let_def split: option.splits)

text \<open>
  Claim C1, as stated, fails: the handler of a progress sample never writes to the task
  store. With task \<open>T\<close> recorded at 500 of 1000 bytes, a sample for \<open>T\<close> with 700 bytes
  leaves the recorded count at 500; from the manager's initial state the same sample
  records nothing at all.
\<close>

theorem C1_counterexample:
  "map_option transferredBytes (map_of (activeTransfers (ex_tq in_progress)) ''T'') = Some 500
   \<and> taskId (ex_sample 700) = ''T'' \<and> bytesTransferred (ex_sample 700) = 700
   \<and> map_option transferredBytes
        (map_of (activeTransfers (handleTransferProgress (ex_sample 700) (ex_tq in_progress))) ''T'')
       = Some 500
   \<and> map_of (activeTransfers (handleTransferProgress (ex_sample 700) tq_init)) ''T'' = None"
  by (simp add: handleTransferProgress_store ex_tq_def onProgress_def tq_init_def ex_task_def ex_sample_def)

text \<open>
  Claim C1, amended. Handling progress samples leaves the task store as it is, so every
  recorded transferred byte count is unchanged, hence non-decreasing, whether a sample's
  count is lower or higher than the recorded one. Each sample is shown in the progress UI
  and handed once to the callback registered for its task identifier, if there is one.
\<close>

theorem C1_samples_leave_store:
  "activeTransfers (foldl (\<lambda>s p. handleTransferProgress p s) s ps) = activeTransfers s
   \<and> progressUI (handleTransferProgress p s) = progressUI s @ [p]
   \<and> delivered (handleTransferProgress p s)
       = delivered s @ (case map_of (progressCallbacks s) (taskId p) of
                          None \<Rightarrow> [] | Some cb \<Rightarrow> [(cb, p)])"
proof -
  have "activeTransfers (foldl (\<lambda>s p. handleTransferProgress p s) s ps) = activeTransfers s"
    by (induction ps arbitrary: s) (simp_all add: handleTransferProgress_store)
  moreover have "progressUI (handleTransferProgress p s) = progressUI s @ [p]"
    by (simp add: handleTransferProgress_def updateProgressUI_def Let_def split: option.splits)
  moreover have "delivered (handleTransferProgress p s)
       = delivered s @ (case map_of (progressCallbacks s) (taskId p) of
                          None \<Rightarrow> [] | Some cb \<Rightarrow> [(cb, p)])"
    by (simp add: handleTransferProgress_def updateProgressUI_def Let_def split: option.splits)
  ultimately show ?thesis by blast
qed

text \<open>
  Claim C6, as stated, fails: the listener for the backend's disconnect notification
  touches the registry only. With connection \<open>c1\<close> live and current, the only connection
  there is, and task \<open>T\<close> in progress, the notification for \<open>c1\<close> leaves \<open>T\<close> in progress
  with no error recorded; and the connection's record is removed, not kept with its
  liveness flag cleared.
\<close>

theorem C6_counterexample:
  "map_option connected (map_of (connections (ssh ex_app)) ''c1'') = Some True
   \<and> currentConnection (ssh ex_app) = Some ''c1''
   \<and> map_option status (map_of (activeTransfers (tq ex_app)) ''T'') = Some in_progress
   \<and> map_option status
        (map_of (activeTransfers (tq (deliver (ssh_disconnected ''c1'') ex_app))) ''T'')
       = Some in_progress
   \<and> map_option error
        (map_of (activeTransfers (tq (deliver (ssh_disconnected ''c1'') ex_app))) ''T'')
       = Some None
   \<and> map_of (connections (ssh (deliver (ssh_disconnected ''c1'') ex_app))) ''c1'' = None"
  by (simp add: ex_app_def ex_s1_def ex_tq_def ex_task_def ex_cfg_def connect_def Let_def
        ssh_init_def tq_init_def onProgress_def on_ssh_disconnected_def)

text \<open>
  Claim C6, amended. When a backend-pushed disconnect notification arrives for a
  connection, that connection's record is removed from the registry and every other
  record stays; if it was the current connection, the current-connection pointer is
  cleared, otherwise the pointer stays; the transfer tasks are not touched.
\<close>

theorem C6_disconnect_event_removes_record:
  "map_of (connections (ssh (deliver (ssh_disconnected cid) a))) cid = None
   \<and> (k \<noteq> cid \<longrightarrow>
        map_of (connections (ssh (deliver (ssh_disconnected cid) a))) k
          = map_of (connections (ssh a)) k)
   \<and> currentConnection (ssh (deliver (ssh_disconnected cid) a))
       = (if currentConnection (ssh a) = Some cid then None else currentConnection (ssh a))
   \<and> tq (deliver (ssh_disconnected cid) a) = tq a
   \<and> dd (deliver (ssh_disconnected cid) a) = dd a"
  by (simp add: on_ssh_disconnected_def delete_conv')

theorem C6_disconnect_event_removes_record_witness:
  "''c1'' \<noteq> ''c2''
   \<and> map_of (connections (ssh (deliver (ssh_disconnected ''c2'') ex_app2))) ''c2'' = None
   \<and> map_of (connections (ssh (deliver (ssh_disconnected ''c2'') ex_app2))) ''c1''
       = map_of (connections (ssh ex_app2)) ''c1''
   \<and> map_option conn_id (map_of (connections (ssh ex_app2)) ''c1'') = Some ''c1''
   \<and> currentConnection (ssh ex_app2) = Some ''c2''
   \<and> currentConnection (ssh (deliver (ssh_disconnected ''c2'') ex_app2)) = None
   \<and> tq (deliver (ssh_disconnected ''c2'') ex_app2) = tq ex_app2"
proof -
  have h: "''c1'' \<noteq> ''c2''" by simp
  have c: "currentConnection (ssh ex_app2) = Some ''c2''
           \<and> map_option conn_id (map_of (connections (ssh ex_app2)) ''c1'') = Some ''c1''"
    by (simp add: ex_app2_def ex_s1_def connect_def Let_def ssh_init_def)
  from C6_disconnect_event_removes_record [of "''c2''" ex_app2 "''c1''"] h c
  show ?thesis by simp
qed

text \<open>
  Claim C7, as stated, fails: cancelling the pending task \<open>T\<close> issues the backend call
  \<^verbatim>\<open>cancel_transfer\<close>, and after the backend's acknowledgement the task's record is gone
  from the store rather than kept with status cancelled.
\<close>

theorem C7_counterexample:
  "map_option status (map_of (activeTransfers (ex_tq pending)) ''T'') = Some pending
   \<and> tq_invoked (ex_tq pending) = []
   \<and> tq_invoked (snd (cancelTransfer ''T'' (Inr ()) (ex_tq pending))) = [cancel_transfer ''T'']
   \<and> map_of (activeTransfers (snd (cancelTransfer ''T'' (Inr ()) (ex_tq pending)))) ''T'' = None"
  by (simp add: ex_tq_def ex_task_def tq_init_def onProgress_def cancelTransfer_def Let_def)

text \<open>
  Claim C7, amended. Cancelling a task issues a cancel request to the backend whatever
  the task's status. When the backend acknowledges, the call returns normally, the task's
  record is removed from the store, every other record stays, and nothing is written to
  the console; when the backend call fails, the error is written to the console and
  thrown to the caller, and the store is unchanged.
\<close>

theorem C7_cancel_always_asks_backend:
  "tq_invoked (snd (cancelTransfer tid reply s)) = tq_invoked s @ [cancel_transfer tid]
   \<and> fst (cancelTransfer tid (Inr ()) s) = Inr ()
   \<and> map_of (activeTransfers (snd (cancelTransfer tid (Inr ()) s))) tid = None
   \<and> activeTransfers (snd (cancelTransfer tid (Inr ()) s)) = AList.delete tid (activeTransfers s)
   \<and> tq_console (snd (cancelTransfer tid (Inr ()) s)) = tq_console s
   \<and> fst (cancelTransfer tid (Inl e) s) = Inl e
   \<and> activeTransfers (snd (cancelTransfer tid (Inl e) s)) = activeTransfers s
   \<and> tq_console (snd (cancelTransfer tid (Inl e) s))
       = tq_console s @ [Error ''Failed to cancel transfer:'' e]"
  by (cases reply) (simp_all add: cancelTransfer_def Let_def delete_conv')

text \<open>
  Claim C8, as stated, fails: with an observer subscribed for task \<open>T\<close>, neither the
  completion event nor the failure event of \<open>T\<close> calls the observer, and the task's record
  is deleted, not moved to a terminal status.
\<close>

theorem C8_counterexample:
  "map_of (progressCallbacks (ex_tq in_progress)) ''T'' = Some (Observer 1)
   \<and> delivered (ex_tq in_progress) = []
   \<and> delivered (handleTransferCompleted ''T'' (ex_tq in_progress)) = []
   \<and> delivered (handleTransferFailed ''T'' ''disk full'' (ex_tq in_progress)) = []
   \<and> map_of (activeTransfers (handleTransferCompleted ''T'' (ex_tq in_progress))) ''T'' = None
   \<and> map_of (activeTransfers (handleTransferFailed ''T'' ''disk full'' (ex_tq in_progress))) ''T'' = None"
  by (simp add: ex_tq_def ex_task_def tq_init_def onProgress_def handleTransferCompleted_def
        handleTransferFailed_def)

lemma unsubscribed_step:
  assumes "map_of (progressCallbacks s) tid = None" and "\<not> subscribes tid ev"
  shows "map_of (progressCallbacks (tq_step s ev)) tid = None
         \<and> filter (\<lambda>x. taskId (snd x) = tid) (delivered (tq_step s ev))
             = filter (\<lambda>x. taskId (snd x) = tid) (delivered s)"
proof (cases ev)
  case (CreateTransferTask src dst dir reply)
  with assms show ?thesis by (cases reply) (simp_all add: createTransferTask_def Let_def)
next
  case (GetTransferProgress t reply)
  with assms show ?thesis by (cases reply) (simp_all add: getTransferProgress_def Let_def)
next
  case (GetActiveTransfers reply)
  with assms show ?thesis by (cases reply) (simp_all add: getActiveTransfers_def Let_def)
next
  case (CancelTransfer t reply)
  with assms show ?thesis by (cases reply) (simp_all add: cancelTransfer_def Let_def)
next
  case (RetryTransfer t reply)
  with assms show ?thesis by (cases reply) (simp_all add: retryTransfer_def Let_def)
next
  case (OnProgress t cb)
  with assms show ?thesis by (simp add: onProgress_def update_conv')
next
  case (RemoveProgressCallback t)
  with assms show ?thesis by (simp add: removeProgressCallback_def delete_conv')
next
  case (EvTransferProgress progress)
  with assms show ?thesis
    by (auto simp: handleTransferProgress_def updateProgressUI_def Let_def split: option.splits)
next
  case (EvTransferCompleted t)
  with assms show ?thesis by (simp add: handleTransferCompleted_def delete_conv')
next
  case (EvTransferFailed t err)
  with assms show ?thesis by (simp add: handleTransferFailed_def delete_conv')
qed

lemma unsubscribed_run:
  assumes "map_of (progressCallbacks s) tid = None"
    and "list_all (\<lambda>ev. \<not> subscribes tid ev) ops"
  shows "map_of (progressCallbacks (foldl tq_step s ops)) tid = None
         \<and> filter (\<lambda>x. taskId (snd x) = tid) (delivered (foldl tq_step s ops))
             = filter (\<lambda>x. taskId (snd x) = tid) (delivered s)"
  using assms
proof (induction ops arbitrary: s)
  case Nil
  then show ?case by simp
next
  case (Cons ev ops)
  from Cons.prems have u: "\<not> subscribes tid ev" and r: "list_all (\<lambda>ev. \<not> subscribes tid ev) ops"
    by simp_all
  from unsubscribed_step [OF Cons.prems(1) u]
  have a: "map_of (progressCallbacks (tq_step s ev)) tid = None"
    and b: "filter (\<lambda>x. taskId (snd x) = tid) (delivered (tq_step s ev))
             = filter (\<lambda>x. taskId (snd x) = tid) (delivered s)"
    by simp_all
  from Cons.IH [OF a r] b show ?case by simp
qed

text \<open>
  Claim C8, amended. When a terminal outcome (completion or failure) arrives for a task,
  the task's record is removed from the store and the observer subscribed for that task
  identifier is unregistered; the observer is not called for the outcome. As long as no
  observer is subscribed for that identifier again, no later operation or event registers
  one and no progress sample for the task is delivered to any observer; an observer
  subscribed for the identifier after the terminal outcome does receive the next sample.
\<close>

theorem C8_terminal_event_unregisters_silently:
  "map_of (activeTransfers (handleTransferCompleted tid s)) tid = None
   \<and> map_of (progressCallbacks (handleTransferCompleted tid s)) tid = None
   \<and> delivered (handleTransferCompleted tid s) = delivered s
   \<and> map_of (activeTransfers (handleTransferFailed tid e s)) tid = None
   \<and> map_of (progressCallbacks (handleTransferFailed tid e s)) tid = None
   \<and> delivered (handleTransferFailed tid e s) = delivered s
   \<and> delivered (handleTransferProgress p (handleTransferCompleted (taskId p) s)) = delivered s
   \<and> delivered (handleTransferProgress p (handleTransferFailed (taskId p) e s)) = delivered s
   \<and> (list_all (\<lambda>ev. \<not> subscribes tid ev) ops \<longrightarrow>
        map_of (progressCallbacks (foldl tq_step (handleTransferCompleted tid s) ops)) tid = None
        \<and> filter (\<lambda>x. taskId (snd x) = tid)
             (delivered (foldl tq_step (handleTransferCompleted tid s) ops))
            = filter (\<lambda>x. taskId (snd x) = tid) (delivered s)
        \<and> map_of (progressCallbacks (foldl tq_step (handleTransferFailed tid e s) ops)) tid = None
        \<and> filter (\<lambda>x. taskId (snd x) = tid)
             (delivered (foldl tq_step (handleTransferFailed tid e s) ops))
            = filter (\<lambda>x. taskId (snd x) = tid) (delivered s))
   \<and> delivered (handleTransferProgress p
        (onProgress (taskId p) cb (handleTransferCompleted (taskId p) s))) = delivered s @ [(cb, p)]
   \<and> delivered (handleTransferProgress p
        (onProgress (taskId p) cb (handleTransferFailed (taskId p) e s))) = delivered s @ [(cb, p)]"
proof -
  have c: "map_of (progressCallbacks (handleTransferCompleted tid s)) tid = None"
    and f: "map_of (progressCallbacks (handleTransferFailed tid e s)) tid = None"
    and dc: "delivered (handleTransferCompleted tid s) = delivered s"
    and df: "delivered (handleTransferFailed tid e s) = delivered s"
    by (simp_all add: handleTransferCompleted_def handleTransferFailed_def delete_conv')
  have one: "map_of (activeTransfers (handleTransferCompleted tid s)) tid = None
   \<and> map_of (activeTransfers (handleTransferFailed tid e s)) tid = None
   \<and> delivered (handleTransferProgress p (handleTransferCompleted (taskId p) s)) = delivered s
   \<and> delivered (handleTransferProgress p (handleTransferFailed (taskId p) e s)) = delivered s"
    by (simp add: handleTransferCompleted_def handleTransferFailed_def delete_conv'
          handleTransferProgress_def updateProgressUI_def Let_def)
  have re: "delivered (handleTransferProgress p
        (onProgress (taskId p) cb (handleTransferCompleted (taskId p) s))) = delivered s @ [(cb, p)]
   \<and> delivered (handleTransferProgress p
        (onProgress (taskId p) cb (handleTransferFailed (taskId p) e s))) = delivered s @ [(cb, p)]"
    by (simp add: handleTransferCompleted_def handleTransferFailed_def onProgress_def
          update_conv' handleTransferProgress_def updateProgressUI_def Let_def)
  have later: "list_all (\<lambda>ev. \<not> subscribes tid ev) ops \<longrightarrow>
        map_of (progressCallbacks (foldl tq_step (handleTransferCompleted tid s) ops)) tid = None
        \<and> filter (\<lambda>x. taskId (snd x) = tid)
             (delivered (foldl tq_step (handleTransferCompleted tid s) ops))
            = filter (\<lambda>x. taskId (snd x) = tid) (delivered s)
        \<and> map_of (progressCallbacks (foldl tq_step (handleTransferFailed tid e s) ops)) tid = None
        \<and> filter (\<lambda>x. taskId (snd x) = tid)
             (delivered (foldl tq_step (handleTransferFailed tid e s) ops))
            = filter (\<lambda>x. taskId (snd x) = tid) (delivered s)"
    using unsubscribed_run [OF c, of ops] unsubscribed_run [OF f, of ops] dc df by simp
  from c f dc df one re later show ?thesis by blast
qed

theorem C8_terminal_event_unregisters_silently_witness:
  "list_all (\<lambda>ev. \<not> subscribes ''T'' ev) ex_late_ops
   \<and> map_of (progressCallbacks ex_tq_sub) ''T'' = Some (Observer 1)
   \<and> map_of (progressCallbacks (foldl tq_step (handleTransferCompleted ''T'' ex_tq_sub) ex_late_ops)) ''T''
       = None
   \<and> filter (\<lambda>x. taskId (snd x) = ''T'')
        (delivered (foldl tq_step (handleTransferCompleted ''T'' ex_tq_sub) ex_late_ops)) = []
   \<and> delivered (handleTransferProgress (ex_sample 700)
        (onProgress ''T'' (Observer 2) (handleTransferCompleted ''T'' ex_tq_sub)))
       = [(Observer 2, ex_sample 700)]"
proof -
  have h: "list_all (\<lambda>ev. \<not> subscribes ''T'' ev) ex_late_ops"
    by (simp add: ex_late_ops_def)
  have s: "map_of (progressCallbacks ex_tq_sub) ''T'' = Some (Observer 1)"
    and d: "delivered ex_tq_sub = []"
    by (simp_all add: ex_tq_sub_def onProgress_def tq_init_def)
  have t: "taskId (ex_sample 700) = ''T''" by (simp add: ex_sample_def)
  from C8_terminal_event_unregisters_silently
         [of "''T''" ex_tq_sub "''x''" "ex_sample 700" ex_late_ops "Observer 2"] h s d t
  show ?thesis by simp
qed

text \<open>
  Claim C5, as stated, fails: the handler has no typed rejection. \<^verbatim>\<open>handleDrop\<close> returns
  nothing and throws nothing. A gesture with an empty file name, or with no path, raises
  nothing at the start of the drag and leaves no drag data, and the drop that follows
  changes nothing at all: no console line and no error notification. A drop on the
  source's own pane writes one console line and no error notification.
\<close>

theorem C5_counterexample:
  "fst (handleDragStart (Some (ex_item (Some ''C:/a.txt'') (Some []))) app_init) = None
   \<and> handleDrop (ex_target ''linux-content-pane'') (Inr ''t1'')
      (snd (handleDragStart (Some (ex_item (Some ''C:/a.txt'') (Some []))) app_init))
     = app_init\<lparr>dd := dd_init\<lparr>isDragging := True\<rparr>\<rparr>
   \<and> fst (handleDragStart (Some (ex_item None (Some ''a.txt''))) app_init) = None
   \<and> handleDrop (ex_target ''linux-content-pane'') (Inr ''t1'')
      (snd (handleDragStart (Some (ex_item None (Some ''a.txt''))) app_init))
     = app_init\<lparr>dd := dd_init\<lparr>isDragging := True\<rparr>\<rparr>
   \<and> dd (handleDrop (ex_target ''windows-content-pane'') (Inr ''t1'')
      (snd (handleDragStart (Some (ex_item (Some ''C:/a.txt'') (Some ''a.txt''))) app_init)))
     = \<lparr>dragData = Some ex_drag, isDragging = True,
        dd_console = [Log ''Cannot drop on same pane'' []],
        errorNotifications = []\<rparr>"
  by (simp add: handleDrop_def handleDragStart_def extractDragData_def ex_item_def ex_target_def
        ex_drag_def getPaneId_def or_empty_def app_init_def dd_init_def Let_def dd_log_def)

text \<open>
  Claim C5, amended. For every gesture whose source pane equals its destination pane,
  the drop only writes "Cannot drop on same pane" to the console; for every gesture on a
  file item inside a pane whose source path or file name is empty, \<^verbatim>\<open>extractDragData\<close>
  yields no drag data, the start of the drag raises nothing, and the drop returns at once.
  In both cases nothing is signalled to the user, no backend call is issued and no
  TransferTask is created: the transfer manager's state, its store and its log of backend
  calls, is unchanged.
\<close>

theorem C5_rejected_gestures_create_nothing:
  "(dragData (dd a) = Some d \<and> sourcePane d = getPaneId target \<longrightarrow>
      handleDrop target reply a = dd_log (Log ''Cannot drop on same pane'' []) a
      \<and> tq (handleDrop target reply a) = tq a
      \<and> errorNotifications (dd (handleDrop target reply a)) = errorNotifications (dd a))
   \<and> (closest_pane item \<noteq> None
       \<and> (or_empty (data_path item) = [] \<or> or_empty (data_filename item) = []) \<longrightarrow>
      extractDragData item = Inr None
      \<and> fst (handleDragStart (Some item) a) = None
      \<and> dragData (dd (snd (handleDragStart (Some item) a))) = None
      \<and> handleDrop target reply (snd (handleDragStart (Some item) a))
          = snd (handleDragStart (Some item) a)
      \<and> tq (snd (handleDragStart (Some item) a)) = tq a
      \<and> dd_console (dd (snd (handleDragStart (Some item) a))) = dd_console (dd a)
      \<and> errorNotifications (dd (snd (handleDragStart (Some item) a)))
          = errorNotifications (dd a))"
  by (auto simp: handleDrop_def handleDragStart_def extractDragData_def Let_def dd_log_def)

theorem C5_rejected_gestures_create_nothing_witness:
  "dragData (dd (snd (handleDragStart (Some (ex_item (Some ''C:/a.txt'') (Some ''a.txt''))) app_init)))
     = Some ex_drag
   \<and> sourcePane ex_drag = getPaneId (ex_target ''windows-content-pane'')
   \<and> tq (handleDrop (ex_target ''windows-content-pane'') (Inr ''t1'')
          (snd (handleDragStart (Some (ex_item (Some ''C:/a.txt'') (Some ''a.txt''))) app_init)))
       = tq_init
   \<and> closest_pane (ex_item (Some ''C:/a.txt'') None) \<noteq> None
   \<and> or_empty (data_filename (ex_item (Some ''C:/a.txt'') None)) = []
   \<and> fst (handleDragStart (Some (ex_item (Some ''C:/a.txt'') None)) app_init) = None
   \<and> tq (handleDrop (ex_target ''linux-content-pane'') (Inr ''t1'')
          (snd (handleDragStart (Some (ex_item (Some ''C:/a.txt'') None)) app_init))) = tq_init
   \<and> tq_invoked (tq (handleDrop (ex_target ''linux-content-pane'') (Inr ''t1'')
          (snd (handleDragStart (Some (ex_item (Some ''C:/a.txt'') (Some ''a.txt''))) app_init))))
       = [create_transfer_task ''C:/a.txt'' ''/home/user/a.txt'' windows_to_linux]"
proof -
  let ?good = "ex_item (Some ''C:/a.txt'') (Some ''a.txt'')"
  let ?bad = "ex_item (Some ''C:/a.txt'') None"
  let ?a = "snd (handleDragStart (Some ?good) app_init)"
  have d: "extractDragData ?good = Inr (Some ex_drag)"
    by (simp add: extractDragData_def ex_item_def ex_drag_def getPaneId_def or_empty_def Let_def)
  have sp: "sourcePane ex_drag = ''windows-content-pane''"
    and sf: "dd_sourcePath ex_drag = ''C:/a.txt''" and fn: "dd_filename ex_drag = ''a.txt''"
    by (simp_all add: ex_drag_def)
  have h1: "dragData (dd ?a) = Some ex_drag"
    by (simp add: handleDragStart_def d Let_def)
  have h2: "sourcePane ex_drag = getPaneId (ex_target ''windows-content-pane'')"
    by (simp add: sp ex_target_def getPaneId_def or_empty_def)
  have h3: "closest_pane ?bad \<noteq> None" and h4: "or_empty (data_filename ?bad) = []"
    by (simp_all add: ex_item_def or_empty_def)
  have t: "tq ?a = tq_init"
    by (simp add: handleDragStart_def d Let_def app_init_def)
  have g: "tq_invoked (tq (handleDrop (ex_target ''linux-content-pane'') (Inr ''t1'') ?a))
       = [create_transfer_task ''C:/a.txt'' ''/home/user/a.txt'' windows_to_linux]"
    by (simp add: handleDrop_def handleDragStart_def d sp sf fn ex_target_def getPaneId_def
          or_empty_def Let_def getTransferDirection_def initiateTransfer_def
          getDestinationPath_def createTransferTask_def showTransferProgress_def dd_log_def
          onProgress_def app_init_def tq_init_def)
  from C5_rejected_gestures_create_nothing
         [of ?a ex_drag "ex_target ''windows-content-pane''" "Inr ''t1''" ?bad] h1 h2 t
  have s1: "tq (handleDrop (ex_target ''windows-content-pane'') (Inr ''t1'') ?a) = tq_init"
    by (simp add: dd_log_def)
  from C5_rejected_gestures_create_nothing
         [of app_init ex_drag "ex_target ''linux-content-pane''" "Inr ''t1''" ?bad] h3 h4
  have s2: "fst (handleDragStart (Some ?bad) app_init) = None
            \<and> tq (handleDrop (ex_target ''linux-content-pane'') (Inr ''t1'')
                 (snd (handleDragStart (Some ?bad) app_init))) = tq_init"
    by (simp add: app_init_def)
  from h1 h2 h3 h4 s1 s2 g show ?thesis by blast
qed



















text \<open>
  The frontend's own store holds no task in any state the manager reaches from its
  construction: no step inserts into it.
\<close>

lemma tq_store_step_empty:
  "activeTransfers s = [] \<Longrightarrow> activeTransfers (tq_step s ev) = []"
proof (cases ev)
  case (CreateTransferTask src dst dir reply)
  assume "activeTransfers s = []"
  with CreateTransferTask show ?thesis
    by (cases reply) (simp_all add: createTransferTask_def Let_def)
next
  case (GetTransferProgress t reply)
  assume "activeTransfers s = []"
  with GetTransferProgress show ?thesis
    by (cases reply) (simp_all add: getTransferProgress_def Let_def)
next
  case (GetActiveTransfers reply)
  assume "activeTransfers s = []"
  with GetActiveTransfers show ?thesis
    by (cases reply) (simp_all add: getActiveTransfers_def Let_def)
next
  case (CancelTransfer t reply)
  assume "activeTransfers s = []"
  with CancelTransfer show ?thesis
    by (cases reply) (simp_all add: cancelTransfer_def Let_def)
next
  case (RetryTransfer t reply)
  assume "activeTransfers s = []"
  with RetryTransfer show ?thesis
    by (cases reply) (simp_all add: retryTransfer_def Let_def)
next
  case (OnProgress t cb)
  assume "activeTransfers s = []"
  with OnProgress show ?thesis by (simp add: onProgress_def)
next
  case (RemoveProgressCallback t)
  assume "activeTransfers s = []"
  with RemoveProgressCallback show ?thesis by (simp add: removeProgressCallback_def)
next
  case (EvTransferProgress progress)
  assume "activeTransfers s = []"
  with EvTransferProgress show ?thesis by (simp add: handleTransferProgress_store)
next
  case (EvTransferCompleted t)
  assume "activeTransfers s = []"
  with EvTransferCompleted show ?thesis by (simp add: handleTransferCompleted_def)
next
  case (EvTransferFailed t err)
  assume "activeTransfers s = []"
  with EvTransferFailed show ?thesis by (simp add: handleTransferFailed_def)
qed

lemma tq_store_stays_empty: "activeTransfers (foldl tq_step tq_init ops) = []"
proof -
  have "activeTransfers s = [] \<Longrightarrow> activeTransfers (foldl tq_step s ops) = []" for s
    by (induction ops arbitrary: s) (simp_all add: tq_store_step_empty)
  then show ?thesis by (simp add: tq_init_def)
qed
















end
